theory Spec2Isabelle
  imports Main "HOL-Library.Sublist"
begin

section \<open>Python values, dictionaries and exceptions\<close>

text \<open>
  The authorization layer of the coffee-shop backend (\<^verbatim>\<open>backend/src/auth/auth.py\<close>) and the
  error handler of \<^verbatim>\<open>backend/src/api.py\<close> that renders its failures.

  A Python \<^verbatim>\<open>dict\<close> with string keys is an association list in insertion order, read with
  \<open>map_of\<close>. Header values reach the code as native strings of 8-bit characters
  (WSGI decodes them as Latin-1), so \<open>string\<close> represents them exactly.
\<close>

type_synonym 'v dict = "(string \<times> 'v) list"

text \<open>
  The values \<^verbatim>\<open>json.loads\<close> produces inside a decoded token payload. Numbers are kept by
  their integer value; the code never inspects one.
\<close>

datatype json =
    JNull
  | JBool bool
  | JNum int
  | JStr string
  | JArr "json list"
  | JObj "(string \<times> json) list"

type_synonym payload = "json dict"

text \<open>
  A JSON Web Key as the code reads it: an object whose members \<^verbatim>\<open>kty\<close>, \<^verbatim>\<open>kid\<close>,
  \<^verbatim>\<open>use\<close>, \<^verbatim>\<open>n\<close>, \<^verbatim>\<open>e\<close> are strings (RFC 7517). The key-set document is an object
  whose members are arrays of such objects; the code reads the member \<^verbatim>\<open>keys\<close> only.
  The unverified header of a token is an object with string members (RFC 7515).
\<close>

type_synonym jwk = "string dict"
type_synonym jwks = "jwk list dict"

text \<open>
  \<^verbatim>\<open>AuthError(error, status_code)\<close>: the first argument is either a dictionary
  \<^verbatim>\<open>{'code': c, 'description': d}\<close> or, at one raise site, a plain string.
\<close>

datatype auth_error = ErrorDict int string | ErrorStr string

text \<open>
  The exceptions that can leave the code. \<open>OtherException\<close> is any further class derived
  from \<^verbatim>\<open>Exception\<close>; \<open>KeyboardInterrupt\<close> stands for the classes derived from
  \<^verbatim>\<open>BaseException\<close> only, which \<^verbatim>\<open>except Exception\<close> does not catch.
\<close>

datatype py_exception =
    AuthError auth_error int
  | IndexError
  | KeyError string
  | TypeError
  | ExpiredSignatureError
  | JWTClaimsError
  | JWTError
  | URLError
  | OtherException string
  | KeyboardInterrupt

fun is_Exception :: "py_exception \<Rightarrow> bool" where
  "is_Exception KeyboardInterrupt = False"
| "is_Exception _ = True"

definition getitem :: "'v dict \<Rightarrow> string \<Rightarrow> py_exception + 'v" where
  \<comment> \<open>\<^verbatim>\<open>d[k]\<close>\<close>
  "getitem d k = (case map_of d k of None \<Rightarrow> Inl (KeyError k) | Some v \<Rightarrow> Inr v)"

section \<open>String operations of the Token Extractor\<close>

text \<open>
  \<^verbatim>\<open>str.split()\<close> without arguments splits at runs of whitespace and drops empty pieces.
  Among the 8-bit characters Python's whitespace is TAB, LF, VT, FF, CR, FS, GS, RS, US,
  SPACE, NEL and NBSP.
\<close>

definition isspace :: "char \<Rightarrow> bool" where
  "isspace c \<longleftrightarrow> (of_char c :: nat) \<in> {9, 10, 11, 12, 13, 28, 29, 30, 31, 32, 133, 160}"

fun split_from :: "string \<Rightarrow> string \<Rightarrow> string list" where
  "split_from w [] = (if w = [] then [] else [w])"
| "split_from w (c # cs) =
     (if isspace c then (if w = [] then split_from [] cs else w # split_from [] cs)
      else split_from (w @ [c]) cs)"

definition str_split :: "string \<Rightarrow> string list" where
  "str_split s = split_from [] s"

text \<open>
  \<^verbatim>\<open>str.lower()\<close> on 8-bit characters: the ASCII capitals and the Latin-1 capitals
  0xC0..0xDE (without the multiplication sign 0xD7) move up by 32.
\<close>

definition lower_char :: "char \<Rightarrow> char" where
  "lower_char c =
     (let n = (of_char c :: nat) in
      if (65 \<le> n \<and> n \<le> 90) \<or> (192 \<le> n \<and> n \<le> 222 \<and> n \<noteq> 215) then char_of (n + 32) else c)"

definition lower :: "string \<Rightarrow> string" where
  "lower s = map lower_char s"

section \<open>Configuration and the outside world\<close>

definition AUTH0_DOMAIN :: string where
  "AUTH0_DOMAIN = ''starbucks-app.eu.auth0.com''"

definition ALGORITHMS :: "string list" where
  "ALGORITHMS = [''RS256'']"

definition API_AUDIENCE :: string where
  "API_AUDIENCE = ''coffee''"

definition jwks_url :: string where
  "jwks_url = ''https://'' @ AUTH0_DOMAIN @ ''/.well-known/jwks.json''"

definition issuer :: string where
  "issuer = ''https://'' @ AUTH0_DOMAIN @ ''/''"

text \<open>
  What the code receives from outside itself: the headers of the current Flask request and
  the library calls it makes. \<open>request_headers\<close> holds each header under the name by which
  \<^verbatim>\<open>request.headers.get\<close> finds it. \<open>urlopen\<close> is \<^verbatim>\<open>urlopen(url)\<close> followed by
  \<^verbatim>\<open>.read()\<close>; \<open>jwt_decode\<close> is
  \<^verbatim>\<open>jose.jwt.decode(token, key, algorithms, audience, issuer)\<close>, whose verdict also depends
  on the verifier's clock. Each call either returns or raises.
\<close>

record env =
  request_headers :: "string dict"
  urlopen :: "string \<Rightarrow> py_exception + string"
  json_loads :: "string \<Rightarrow> py_exception + jwks"
  get_unverified_header :: "string \<Rightarrow> py_exception + string dict"
  jwt_decode :: "string \<Rightarrow> jwk \<Rightarrow> string list \<Rightarrow> string \<Rightarrow> string \<Rightarrow> py_exception + payload"

text \<open>
  The effects a run has on the outside: the key-set fetch, the call of the decoder with
  its five arguments, and the invocation of the protected operation.
\<close>

datatype event =
    Fetch string
  | Decode string jwk "string list" string string
  | Invoke payload

section \<open>auth.py\<close>

definition get_token_auth_header :: "env \<Rightarrow> py_exception + string" where
  "get_token_auth_header rq =
     (case map_of (request_headers rq) ''Authorization'' of
        None \<Rightarrow> Inl (AuthError (ErrorDict 401 ''Missing authorization header.'') 401)
      | Some authorization_header \<Rightarrow>
          (let auth_header_components = str_split authorization_header in
           case auth_header_components of
             [] \<Rightarrow> Inl IndexError
           | c0 # _ \<Rightarrow>
               if lower c0 \<noteq> ''bearer'' then
                 Inl (AuthError (ErrorDict 401
                   (''Authorization header must start with '' @ [CHR 0x22] @ ''Bearer''
                      @ [CHR 0x22] @ ''.'')) 401)
               else if length auth_header_components \<noteq> 2 then
                 Inl (AuthError (ErrorDict 402 ''Invalid form of autherization token'') 401)
               else Inr (auth_header_components ! 1)))"

text \<open>
  \<^verbatim>\<open>permission in payload['permissions']\<close> for a string on the left: membership in a list,
  key membership in an object, substring test in a string, \<^verbatim>\<open>TypeError\<close> otherwise.
\<close>

fun operator_in :: "string \<Rightarrow> json \<Rightarrow> py_exception + bool" where
  "operator_in p (JArr xs) = Inr (JStr p \<in> set xs)"
| "operator_in p (JObj kvs) = Inr (p \<in> fst ` set kvs)"
| "operator_in p (JStr s) = Inr (sublist p s)"
| "operator_in p _ = Inl TypeError"

definition check_permissions :: "string \<Rightarrow> payload \<Rightarrow> py_exception + bool" where
  "check_permissions permission payload =
     (case map_of payload ''permissions'' of
        None \<Rightarrow> Inl (AuthError (ErrorStr ''Permissions not included in JWT'') 400)
      | Some permissions \<Rightarrow>
          (case operator_in permission permissions of
             Inl e \<Rightarrow> Inl e
           | Inr found \<Rightarrow>
               if \<not> found then
                 Inl (AuthError (ErrorDict 401 ''Unautherized to use the service.'') 401)
               else Inr True))"

text \<open>
  The dictionary literal of the key-matching loop reads \<^verbatim>\<open>kty\<close>, \<^verbatim>\<open>kid\<close>, \<^verbatim>\<open>use\<close>,
  \<^verbatim>\<open>n\<close>, \<^verbatim>\<open>e\<close> in this order; the first missing member raises \<^verbatim>\<open>KeyError\<close>.
\<close>

definition build_RSA_key :: "jwk \<Rightarrow> py_exception + jwk" where
  "build_RSA_key key =
     (case getitem key ''kty'' of Inl e \<Rightarrow> Inl e | Inr kty \<Rightarrow>
     (case getitem key ''kid'' of Inl e \<Rightarrow> Inl e | Inr kid \<Rightarrow>
     (case getitem key ''use'' of Inl e \<Rightarrow> Inl e | Inr use \<Rightarrow>
     (case getitem key ''n'' of Inl e \<Rightarrow> Inl e | Inr n \<Rightarrow>
     (case getitem key ''e'' of Inl e \<Rightarrow> Inl e | Inr e \<Rightarrow>
        Inr [(''kty'', kty), (''kid'', kid), (''use'', use), (''n'', n), (''e'', e)])))))"

text \<open>
  The loop \<^verbatim>\<open>for key in jwks['keys']\<close>, with the value of \<^verbatim>\<open>RSA_key\<close> so far as the
  accumulator. It has no \<^verbatim>\<open>break\<close>.
\<close>

fun match_keys :: "jwk list \<Rightarrow> string \<Rightarrow> jwk \<Rightarrow> py_exception + jwk" where
  "match_keys [] header_kid RSA_key = Inr RSA_key"
| "match_keys (key # keys) header_kid RSA_key =
     (case getitem key ''kid'' of
        Inl e \<Rightarrow> Inl e
      | Inr kid \<Rightarrow>
          if kid = header_kid then
            (case build_RSA_key key of
               Inl e \<Rightarrow> Inl e
             | Inr RSA_key' \<Rightarrow> match_keys keys header_kid RSA_key')
          else match_keys keys header_kid RSA_key)"

definition verify_decode_jwt ::
  "env \<Rightarrow> string \<Rightarrow> event list \<Rightarrow> (py_exception + payload) \<times> event list" where
  "verify_decode_jwt w token s =
     (let s1 = s @ [Fetch jwks_url] in
      (case urlopen w jwks_url of Inl e \<Rightarrow> (Inl e, s1) | Inr jsonJWKS \<Rightarrow>
      (case json_loads w jsonJWKS of Inl e \<Rightarrow> (Inl e, s1) | Inr jwks \<Rightarrow>
      (case get_unverified_header w token of Inl e \<Rightarrow> (Inl e, s1) | Inr unverified_header \<Rightarrow>
      (case map_of unverified_header ''kid'' of
         None \<Rightarrow> (Inl (AuthError (ErrorDict 401 ''Missing argument.'') 401), s1)
       | Some header_kid \<Rightarrow>
      (case getitem jwks ''keys'' of Inl e \<Rightarrow> (Inl e, s1) | Inr keys \<Rightarrow>
      (case match_keys keys header_kid [] of Inl e \<Rightarrow> (Inl e, s1) | Inr RSA_key \<Rightarrow>
        if RSA_key \<noteq> [] then
          (let s2 = s1 @ [Decode token RSA_key ALGORITHMS API_AUDIENCE issuer] in
           (case jwt_decode w token RSA_key ALGORITHMS API_AUDIENCE issuer of
              Inr payload \<Rightarrow> (Inr payload, s2)
            | Inl e \<Rightarrow>
                if e = ExpiredSignatureError then
                  (Inl (AuthError (ErrorDict 401 ''Token has expired.'') 401), s2)
                else if e = JWTClaimsError then
                  (Inl (AuthError (ErrorDict 401
                     ''Incorrect claims. Please, check the audience and issuer.'') 401), s2)
                else if is_Exception e then
                  (Inl (AuthError (ErrorDict 400 ''Unable to parse authentication token.'') 400), s2)
                else (Inl e, s2)))
        else (Inl (AuthError (ErrorDict 400 ''No token was provided.'') 400), s1))))))))"

text \<open>
  The function \<^verbatim>\<open>wrapper\<close> that \<^verbatim>\<open>requires_auth(permission)\<close> puts around a handler
  \<open>f\<close>; the handler's further arguments are part of \<open>f\<close>.
\<close>

definition wrapper ::
  "env \<Rightarrow> string \<Rightarrow> (payload \<Rightarrow> py_exception + 'r) \<Rightarrow> event list \<Rightarrow>
     (py_exception + 'r) \<times> event list" where
  "wrapper w permission f s =
     (case get_token_auth_header w of
        Inl e \<Rightarrow> (Inl e, s)
      | Inr token \<Rightarrow>
          (case verify_decode_jwt w token s of
             (Inl e, s') \<Rightarrow> (Inl e, s')
           | (Inr payload, s') \<Rightarrow>
               (case check_permissions permission payload of
                  Inl e \<Rightarrow> (Inl e, s')
                | Inr _ \<Rightarrow> (f payload, s' @ [Invoke payload]))))"

text \<open>
  The names \<^verbatim>\<open>AUTH0_DOMAIN\<close>, \<^verbatim>\<open>ALGORITHMS\<close> and \<^verbatim>\<open>API_AUDIENCE\<close> are variables of the
  module: Python looks them up at every call, and they are what one call could leave
  changed for the next. \<open>module_vars\<close> holds them; \<open>module_at_import\<close> is their value
  after lines 8 to 12 have run. A \<open>run_state\<close> is what outlives a call: the module's
  variables and the effects so far.
\<close>

record module_vars =
  var_AUTH0_DOMAIN :: string
  var_ALGORITHMS :: "string list"
  var_API_AUDIENCE :: string

definition module_at_import :: module_vars where
  "module_at_import =
     \<lparr> var_AUTH0_DOMAIN = AUTH0_DOMAIN, var_ALGORITHMS = ALGORITHMS,
       var_API_AUDIENCE = API_AUDIENCE \<rparr>"

record run_state =
  globals :: module_vars
  effects :: "event list"

definition jwks_url_of :: "module_vars \<Rightarrow> string" where
  "jwks_url_of g = ''https://'' @ var_AUTH0_DOMAIN g @ ''/.well-known/jwks.json''"

definition issuer_of :: "module_vars \<Rightarrow> string" where
  "issuer_of g = ''https://'' @ var_AUTH0_DOMAIN g @ ''/''"

text \<open>
  \<^verbatim>\<open>verify_decode_jwt\<close> once more, statement by statement, with the module's variables read
  from the state in which the call starts and the state handed on to the next call.
\<close>

definition verify_decode_jwt_in ::
  "env \<Rightarrow> string \<Rightarrow> run_state \<Rightarrow> (py_exception + payload) \<times> run_state" where
  "verify_decode_jwt_in w token st =
     (let g = globals st;
          st1 = st\<lparr>effects := effects st @ [Fetch (jwks_url_of g)]\<rparr> in
      (case urlopen w (jwks_url_of g) of Inl e \<Rightarrow> (Inl e, st1) | Inr jsonJWKS \<Rightarrow>
      (case json_loads w jsonJWKS of Inl e \<Rightarrow> (Inl e, st1) | Inr jwks \<Rightarrow>
      (case get_unverified_header w token of Inl e \<Rightarrow> (Inl e, st1) | Inr unverified_header \<Rightarrow>
      (case map_of unverified_header ''kid'' of
         None \<Rightarrow> (Inl (AuthError (ErrorDict 401 ''Missing argument.'') 401), st1)
       | Some header_kid \<Rightarrow>
      (case getitem jwks ''keys'' of Inl e \<Rightarrow> (Inl e, st1) | Inr keys \<Rightarrow>
      (case match_keys keys header_kid [] of Inl e \<Rightarrow> (Inl e, st1) | Inr RSA_key \<Rightarrow>
        if RSA_key \<noteq> [] then
          (let st2 = st\<lparr>effects := effects st @
                 [Fetch (jwks_url_of g),
                  Decode token RSA_key (var_ALGORITHMS g) (var_API_AUDIENCE g) (issuer_of g)]\<rparr> in
           (case jwt_decode w token RSA_key (var_ALGORITHMS g) (var_API_AUDIENCE g) (issuer_of g) of
              Inr payload \<Rightarrow> (Inr payload, st2)
            | Inl e \<Rightarrow>
                if e = ExpiredSignatureError then
                  (Inl (AuthError (ErrorDict 401 ''Token has expired.'') 401), st2)
                else if e = JWTClaimsError then
                  (Inl (AuthError (ErrorDict 401
                     ''Incorrect claims. Please, check the audience and issuer.'') 401), st2)
                else if is_Exception e then
                  (Inl (AuthError (ErrorDict 400 ''Unable to parse authentication token.'') 400), st2)
                else (Inl e, st2)))
        else (Inl (AuthError (ErrorDict 400 ''No token was provided.'') 400), st1))))))))"

section \<open>api.py: the handler registered for AuthError\<close>

record response =
  success :: bool
  error :: int
  message :: string
  status :: int

definition get_error_message :: "auth_error \<Rightarrow> string \<Rightarrow> string" where
  \<comment> \<open>subscripting a string with \<^verbatim>\<open>'description'\<close> raises the \<^verbatim>\<open>TypeError\<close> that is caught\<close>
  "get_error_message err default_text =
     (case err of ErrorDict code description \<Rightarrow> description | ErrorStr _ \<Rightarrow> default_text)"

definition unautherized :: "auth_error \<Rightarrow> int \<Rightarrow> response" where
  "unautherized err status_code =
     \<lparr> success = False, error = status_code,
       message = get_error_message err ''Unautherized'', status = status_code \<rparr>"

text \<open>
  \<^verbatim>\<open>api.py\<close> registers handlers for \<^verbatim>\<open>AuthError\<close> and for the HTTP errors 400, 404, 409
  and 422; no handler of the repository takes any other exception.
\<close>

definition errorhandler :: "py_exception \<Rightarrow> response option" where
  "errorhandler e = (case e of AuthError err status_code \<Rightarrow> Some (unautherized err status_code) | _ \<Rightarrow> None)"

section \<open>Notions of the specification\<close>

text \<open>
  A KeySetEntry of the data model: a key descriptor that carries all five members
  \<open>{key_type, key_id, usage, modulus, exponent}\<close>.
\<close>

definition KeySetEntry :: "jwk \<Rightarrow> bool" where
  "KeySetEntry key \<longleftrightarrow>
     map_of key ''kty'' \<noteq> None \<and> map_of key ''kid'' \<noteq> None \<and> map_of key ''use'' \<noteq> None \<and>
     map_of key ''n'' \<noteq> None \<and> map_of key ''e'' \<noteq> None"

text \<open>The entries of a key set whose key-id is the one the token declares, in key-set order.\<close>

definition matching :: "string \<Rightarrow> jwk list \<Rightarrow> jwk list" where
  "matching header_kid keys = filter (\<lambda>key. map_of key ''kid'' = Some header_kid) keys"

text \<open>
  The outside world answers the key-set fetch with the key sequence \<open>keys\<close> and the
  unverified header of \<open>token\<close> declares the key-id \<open>header_kid\<close>.
\<close>

definition fetched :: "env \<Rightarrow> string \<Rightarrow> jwk list \<Rightarrow> string \<Rightarrow> bool" where
  "fetched w token keys header_kid \<longleftrightarrow>
     (case urlopen w jwks_url of
        Inl e \<Rightarrow> False
      | Inr jsonJWKS \<Rightarrow>
          (case json_loads w jsonJWKS of
             Inl e \<Rightarrow> False
           | Inr jwks \<Rightarrow> map_of jwks ''keys'' = Some keys)) \<and>
     (case get_unverified_header w token of
        Inl e \<Rightarrow> False
      | Inr unverified_header \<Rightarrow> map_of unverified_header ''kid'' = Some header_kid)"

text \<open>The key set the identity provider serves at \<open>url\<close>, when the fetch and its parse succeed.\<close>

definition served_keys :: "env \<Rightarrow> string \<Rightarrow> jwk list option" where
  "served_keys w url =
     (case urlopen w url of
        Inl e \<Rightarrow> None
      | Inr jsonJWKS \<Rightarrow>
          (case json_loads w jsonJWKS of Inl e \<Rightarrow> None | Inr jwks \<Rightarrow> map_of jwks ''keys''))"

section \<open>The failure kinds of the specification\<close>

text \<open>Each kind is the \<^verbatim>\<open>AuthError\<close> of one raise site.\<close>

definition MissingHeader :: py_exception where
  "MissingHeader = AuthError (ErrorDict 401 ''Missing authorization header.'') 401"

definition MalformedScheme :: py_exception where
  "MalformedScheme = AuthError (ErrorDict 401
     (''Authorization header must start with '' @ [CHR 0x22] @ ''Bearer'' @ [CHR 0x22] @ ''.'')) 401"

definition MalformedHeader :: py_exception where
  "MalformedHeader = AuthError (ErrorDict 402 ''Invalid form of autherization token'') 401"

definition MissingKeyId :: py_exception where
  "MissingKeyId = AuthError (ErrorDict 401 ''Missing argument.'') 401"

definition TokenExpired :: py_exception where
  "TokenExpired = AuthError (ErrorDict 401 ''Token has expired.'') 401"

definition ClaimsInvalid :: py_exception where
  "ClaimsInvalid = AuthError (ErrorDict 401
     ''Incorrect claims. Please, check the audience and issuer.'') 401"

definition TokenUnparseable :: py_exception where
  "TokenUnparseable = AuthError (ErrorDict 400 ''Unable to parse authentication token.'') 400"

definition NoTokenProvided :: py_exception where
  "NoTokenProvided = AuthError (ErrorDict 400 ''No token was provided.'') 400"

definition PermissionsClaimMissing :: py_exception where
  "PermissionsClaimMissing = AuthError (ErrorStr ''Permissions not included in JWT'') 400"

definition PermissionDenied :: py_exception where
  "PermissionDenied = AuthError (ErrorDict 401 ''Unautherized to use the service.'') 401"

definition http_status :: "py_exception \<Rightarrow> int option" where
  \<comment> \<open>the status of the response the repository's handlers give an exception\<close>
  "http_status e = map_option status (errorhandler e)"

section \<open>A sample world\<close>

text \<open>
  A key set in which two entries share the key-id \<open>k1\<close>, a token header that declares
  \<open>k1\<close>, and a decoder that accepts the token under the modulus of the later entry only.
\<close>

definition key_a :: jwk where
  "key_a = [(''kty'', ''RSA''), (''use'', ''sig''), (''n'', ''modulus-a''), (''e'', ''AQAB''),
            (''kid'', ''k1''), (''alg'', ''RS256'')]"

definition key_b :: jwk where
  "key_b = [(''kty'', ''RSA''), (''use'', ''sig''), (''n'', ''modulus-b''), (''e'', ''AQAB''),
            (''kid'', ''k1''), (''alg'', ''RS256'')]"

definition key_c :: jwk where
  "key_c = [(''kty'', ''RSA''), (''use'', ''sig''), (''n'', ''modulus-c''), (''e'', ''AQAB''),
            (''kid'', ''k2''), (''alg'', ''RS256'')]"

definition RSA_key_b :: jwk where
  "RSA_key_b = [(''kty'', ''RSA''), (''kid'', ''k1''), (''use'', ''sig''), (''n'', ''modulus-b''),
                (''e'', ''AQAB'')]"

definition sample_claims :: payload where
  "sample_claims = [(''iss'', JStr ''https://starbucks-app.eu.auth0.com/''), (''aud'', JStr ''coffee''),
                    (''exp'', JNum 1700000000), (''permissions'', JArr [JStr ''get:drinks-detail''])]"

definition sample_world :: env where
  "sample_world =
     \<lparr> request_headers = [(''Host'', ''localhost''), (''Authorization'', ''Bearer t0'')],
       urlopen = (\<lambda>url. Inr ''body''),
       json_loads = (\<lambda>body. Inr [(''keys'', [key_a, key_c, key_b])]),
       get_unverified_header = (\<lambda>token. Inr [(''alg'', ''RS256''), (''typ'', ''JWT''), (''kid'', ''k1'')]),
       jwt_decode = (\<lambda>token key algorithms audience iss.
          if map_of key ''n'' = Some ''modulus-b'' then Inr sample_claims else Inl JWTError) \<rparr>"

definition sample_operation :: "payload \<Rightarrow> py_exception + nat" where
  "sample_operation claims = Inr (length claims)"

text \<open>Variants of the sample world: what the outside answers differs in one place each.\<close>

definition unparseable_world :: env where
  \<comment> \<open>the decoder rejects the token with its general error\<close>
  "unparseable_world =
     sample_world\<lparr>jwt_decode := (\<lambda>token key algorithms audience iss. Inl JWTError)\<rparr>"

definition expired_world :: env where
  \<comment> \<open>the decoder finds the token expired, whatever the key\<close>
  "expired_world =
     sample_world\<lparr>jwt_decode := (\<lambda>token key algorithms audience iss. Inl ExpiredSignatureError)\<rparr>"

definition unknown_kid_world :: env where
  \<comment> \<open>the token declares a key-id that no entry of the key set has\<close>
  "unknown_kid_world =
     sample_world\<lparr>get_unverified_header := (\<lambda>token. Inr [(''alg'', ''RS256''), (''kid'', ''k9'')])\<rparr>"

definition expired_unknown_kid_world :: env where
  \<comment> \<open>an expired token that declares a key-id no entry of the key set has\<close>
  "expired_unknown_kid_world =
     expired_world\<lparr>get_unverified_header := (\<lambda>token. Inr [(''alg'', ''RS256''), (''kid'', ''k9'')])\<rparr>"

definition fetch_down_world :: env where
  \<comment> \<open>the identity provider cannot be reached\<close>
  "fetch_down_world = sample_world\<lparr>urlopen := (\<lambda>url. Inl URLError)\<rparr>"

definition next_request_world :: env where
  \<comment> \<open>a later request: other headers, another response body with the same key set, the same
      decoder and clock\<close>
  "next_request_world =
     sample_world\<lparr>request_headers := [(''Authorization'', ''Bearer t0''), (''Accept'', ''*/*'')],
       urlopen := (\<lambda>url. Inr ''body of the second response'')\<rparr>"

definition malformed_token_world :: env where
  \<comment> \<open>the token cannot be split into its segments: the library rejects it wherever it is read\<close>
  "malformed_token_world =
     sample_world\<lparr>get_unverified_header := (\<lambda>token. Inl JWTError),
       jwt_decode := (\<lambda>token key algorithms audience iss. Inl JWTError)\<rparr>"

definition not_yet_valid_world :: env where
  \<comment> \<open>the decoder rejects a claim that is neither expiry, audience nor issuer (a not-before
      time in the future), for which it raises its claims error as well\<close>
  "not_yet_valid_world =
     sample_world\<lparr>jwt_decode := (\<lambda>token key algorithms audience iss. Inl JWTClaimsError)\<rparr>"

definition sample_state :: run_state where
  "sample_state = \<lparr> globals = module_at_import, effects = [] \<rparr>"

section \<open>Facts about the modelled functions\<close>

lemma split_from_blank: "\<forall>c\<in>set s. isspace c \<Longrightarrow> split_from [] s = []"
  by (induction s) simp_all

lemma split_from_components:
  "\<forall>ch\<in>set w. \<not> isspace ch \<Longrightarrow>
   \<forall>c\<in>set (split_from w s). c \<noteq> [] \<and> (\<forall>ch\<in>set c. \<not> isspace ch)"
proof (induction s arbitrary: w)
  case Nil
  then show ?case by simp
next
  case (Cons a s)
  have blank: "\<forall>c\<in>set (split_from [] s). c \<noteq> [] \<and> (\<forall>ch\<in>set c. \<not> isspace ch)"
    using Cons.IH [of "[]"] by simp
  show ?case
  proof (cases "isspace a")
    case True
    with blank Cons.prems show ?thesis by simp
  next
    case False
    with Cons.prems have "\<forall>ch\<in>set (w @ [a]). \<not> isspace ch" by simp
    from Cons.IH [OF this] False show ?thesis by simp
  qed
qed

text \<open>Every component of a split is non-empty and free of whitespace.\<close>

lemma str_split_components:
  "c \<in> set (str_split s) \<Longrightarrow> c \<noteq> [] \<and> (\<forall>ch\<in>set c. \<not> isspace ch)"
  using split_from_components [of "[]" s] by (simp add: str_split_def)

lemma split_from_nonblank:
  "w \<noteq> [] \<or> (\<exists>ch\<in>set s. \<not> isspace ch) \<Longrightarrow> split_from w s \<noteq> []"
  by (induction s arbitrary: w) auto

lemma str_split_empty_iff: "str_split s = [] \<longleftrightarrow> (\<forall>ch\<in>set s. isspace ch)"
  using split_from_nonblank [of "[]" s] split_from_blank [of s] by (auto simp: str_split_def)

lemma get_token_auth_header_request:
  "request_headers w' = request_headers w \<Longrightarrow> get_token_auth_header w' = get_token_auth_header w"
  by (simp add: get_token_auth_header_def)

text \<open>
  On a header value with at least one component the extractor decides by the scheme first
  and by the number of components second.
\<close>

lemma extractor_cases:
  assumes "map_of (request_headers w) ''Authorization'' = Some authorization_header"
    and "str_split authorization_header = c0 # rest"
  shows "get_token_auth_header w =
     (if lower c0 \<noteq> ''bearer'' then Inl MalformedScheme
      else if length (c0 # rest) \<noteq> 2 then Inl MalformedHeader
      else Inr (hd rest))"
  using assms
  by (cases rest) (simp_all add: get_token_auth_header_def MalformedScheme_def MalformedHeader_def)

lemma http_status_AuthError [simp]: "http_status (AuthError err code) = Some code"
  by (simp add: http_status_def errorhandler_def unautherized_def)

lemma http_status_other:
  "\<forall>err code. e \<noteq> AuthError err code \<Longrightarrow> http_status e = None"
  by (cases e) (simp_all add: http_status_def errorhandler_def)

lemma build_RSA_key_entry:
  "KeySetEntry key \<Longrightarrow> \<exists>kty kid use n e. build_RSA_key key =
      Inr [(''kty'', kty), (''kid'', kid), (''use'', use), (''n'', n), (''e'', e)] \<and>
      map_of key ''kty'' = Some kty \<and> map_of key ''kid'' = Some kid \<and> map_of key ''use'' = Some use \<and>
      map_of key ''n'' = Some n \<and> map_of key ''e'' = Some e"
  by (auto simp: KeySetEntry_def build_RSA_key_def getitem_def)

lemma match_keys_entries:
  "list_all KeySetEntry keys \<Longrightarrow>
   match_keys keys header_kid RSA_key =
     (if matching header_kid keys = [] then Inr RSA_key
      else build_RSA_key (last (matching header_kid keys)))"
proof (induction keys arbitrary: RSA_key)
  case Nil
  then show ?case by (simp add: matching_def)
next
  case (Cons key keys)
  from Cons.prems have ent: "KeySetEntry key" and rest: "list_all KeySetEntry keys" by simp_all
  from build_RSA_key_entry [OF ent] obtain kid r where
    kid: "map_of key ''kid'' = Some kid" and r: "build_RSA_key key = Inr r" by blast
  show ?case
  proof (cases "kid = header_kid")
    case True
    then show ?thesis
      using kid r Cons.IH [OF rest, of r] by (simp add: getitem_def matching_def)
  next
    case False
    then show ?thesis
      using kid Cons.IH [OF rest, of RSA_key] by (simp add: getitem_def matching_def)
  qed
qed

lemma match_keys_none:
  "\<forall>key\<in>set keys. \<exists>kid. map_of key ''kid'' = Some kid \<and> kid \<noteq> header_kid \<Longrightarrow>
   match_keys keys header_kid RSA_key = Inr RSA_key"
  by (induction keys) (auto simp: getitem_def)

lemma matching_last_entry:
  "list_all KeySetEntry keys \<Longrightarrow> matching header_kid keys \<noteq> [] \<Longrightarrow>
   KeySetEntry (last (matching header_kid keys))"
proof -
  assume ents: "list_all KeySetEntry keys" and ne: "matching header_kid keys \<noteq> []"
  from ne have "last (matching header_kid keys) \<in> set (matching header_kid keys)" by simp
  then have "last (matching header_kid keys) \<in> set keys" by (simp add: matching_def)
  with ents show ?thesis by (simp add: list_all_iff)
qed

lemma fetchedD:
  "fetched w token keys header_kid \<Longrightarrow>
     \<exists>body jwks hdr. urlopen w jwks_url = Inr body \<and> json_loads w body = Inr jwks \<and>
       map_of jwks ''keys'' = Some keys \<and> get_unverified_header w token = Inr hdr \<and>
       map_of hdr ''kid'' = Some header_kid"
  by (auto simp: fetched_def split: sum.splits)

lemma verify_fetched:
  "fetched w token keys header_kid \<Longrightarrow>
   verify_decode_jwt w token s =
     (case match_keys keys header_kid [] of
        Inl e \<Rightarrow> (Inl e, s @ [Fetch jwks_url])
      | Inr RSA_key \<Rightarrow>
          if RSA_key \<noteq> [] then
            (case jwt_decode w token RSA_key ALGORITHMS API_AUDIENCE issuer of
               Inr payload \<Rightarrow> (Inr payload, s @ [Fetch jwks_url, Decode token RSA_key ALGORITHMS API_AUDIENCE issuer])
             | Inl e \<Rightarrow>
                 (Inl (if e = ExpiredSignatureError then TokenExpired
                       else if e = JWTClaimsError then ClaimsInvalid
                       else if is_Exception e then TokenUnparseable else e),
                  s @ [Fetch jwks_url, Decode token RSA_key ALGORITHMS API_AUDIENCE issuer]))
          else (Inl NoTokenProvided, s @ [Fetch jwks_url]))"
  by (auto dest!: fetchedD simp: verify_decode_jwt_def getitem_def Let_def TokenExpired_def ClaimsInvalid_def
        TokenUnparseable_def NoTokenProvided_def split: sum.splits)

lemma verify_matched:
  assumes "fetched w token keys header_kid" and "list_all KeySetEntry keys"
    and "matching header_kid keys \<noteq> []"
    and "build_RSA_key (last (matching header_kid keys)) = Inr RSA_key"
  shows "verify_decode_jwt w token s =
     (case jwt_decode w token RSA_key ALGORITHMS API_AUDIENCE issuer of
        Inr payload \<Rightarrow> (Inr payload, s @ [Fetch jwks_url, Decode token RSA_key ALGORITHMS API_AUDIENCE issuer])
      | Inl e \<Rightarrow>
          (Inl (if e = ExpiredSignatureError then TokenExpired
                else if e = JWTClaimsError then ClaimsInvalid
                else if is_Exception e then TokenUnparseable else e),
           s @ [Fetch jwks_url, Decode token RSA_key ALGORITHMS API_AUDIENCE issuer]))"
proof -
  from matching_last_entry [OF assms(2,3)] have "KeySetEntry (last (matching header_kid keys))" .
  from build_RSA_key_entry [OF this] assms(4) have ne: "RSA_key \<noteq> []" by auto
  have "match_keys keys header_kid [] = Inr RSA_key"
    using match_keys_entries [OF assms(2), of header_kid "[]"] assms(3,4) by simp
  with ne show ?thesis
    by (simp add: verify_fetched [OF assms(1)])
qed

lemma verify_trace:
  "verify_decode_jwt w token s =
     (fst (verify_decode_jwt w token []), s @ snd (verify_decode_jwt w token []))"
  by (simp add: verify_decode_jwt_def Let_def split: sum.splits option.splits)

lemma verify_success_trace:
  "verify_decode_jwt w token s = (Inr claims, s1) \<Longrightarrow>
   \<exists>RSA_key. s1 = s @ [Fetch jwks_url, Decode token RSA_key ALGORITHMS API_AUDIENCE issuer] \<and>
     jwt_decode w token RSA_key ALGORITHMS API_AUDIENCE issuer = Inr claims"
  by (auto simp: verify_decode_jwt_def Let_def split: sum.splits option.splits if_splits)

text \<open>Runs that start from a state of the module.\<close>

lemma served_keysD:
  "served_keys w url = Some keys \<Longrightarrow>
   \<exists>body jwks. urlopen w url = Inr body \<and> json_loads w body = Inr jwks \<and>
      map_of jwks ''keys'' = Some keys"
  by (auto simp: served_keys_def split: sum.splits)

lemma verify_in_served:
  assumes "served_keys w (jwks_url_of (globals st)) = Some keys"
    and "get_unverified_header w token = Inr unverified_header"
    and "map_of unverified_header ''kid'' = Some header_kid"
    and "match_keys keys header_kid [] = Inr RSA_key" and "RSA_key \<noteq> []"
    and "jwt_decode w token RSA_key (var_ALGORITHMS (globals st)) (var_API_AUDIENCE (globals st))
           (issuer_of (globals st)) = Inr claims"
  shows "verify_decode_jwt_in w token st =
     (Inr claims,
      st\<lparr>effects := effects st @
        [Fetch (jwks_url_of (globals st)),
         Decode token RSA_key (var_ALGORITHMS (globals st)) (var_API_AUDIENCE (globals st))
           (issuer_of (globals st))]\<rparr>)"
proof -
  from served_keysD [OF assms(1)] obtain body jwks where
    "urlopen w (jwks_url_of (globals st)) = Inr body" "json_loads w body = Inr jwks"
    "map_of jwks ''keys'' = Some keys" by blast
  with assms(2-6) show ?thesis
    by (simp add: verify_decode_jwt_in_def getitem_def Let_def)
qed

lemma verify_in_success:
  assumes "verify_decode_jwt_in w token st = (Inr claims, st1)"
  shows "\<exists>keys unverified_header header_kid RSA_key.
     served_keys w (jwks_url_of (globals st)) = Some keys \<and>
     get_unverified_header w token = Inr unverified_header \<and>
     map_of unverified_header ''kid'' = Some header_kid \<and>
     match_keys keys header_kid [] = Inr RSA_key \<and> RSA_key \<noteq> [] \<and>
     jwt_decode w token RSA_key (var_ALGORITHMS (globals st)) (var_API_AUDIENCE (globals st))
       (issuer_of (globals st)) = Inr claims \<and>
     st1 = st\<lparr>effects := effects st @
        [Fetch (jwks_url_of (globals st)),
         Decode token RSA_key (var_ALGORITHMS (globals st)) (var_API_AUDIENCE (globals st))
           (issuer_of (globals st))]\<rparr>"
  using assms
  by (auto simp: verify_decode_jwt_in_def served_keys_def getitem_def Let_def
        split: sum.splits option.splits if_splits)

lemma verify_in_at_import:
  "globals st = module_at_import \<Longrightarrow>
   verify_decode_jwt_in w token st =
     (fst (verify_decode_jwt w token (effects st)),
      st\<lparr>effects := snd (verify_decode_jwt w token (effects st))\<rparr>)"
  by (simp add: verify_decode_jwt_in_def verify_decode_jwt_def module_at_import_def jwks_url_of_def
        issuer_of_def jwks_url_def issuer_def Let_def split: sum.splits option.splits)

section \<open>Facts about the sample world\<close>

lemma sample_fetched: "fetched sample_world token [key_a, key_c, key_b] ''k1''"
  by (simp add: fetched_def sample_world_def)

lemma sample_entries: "list_all KeySetEntry [key_a, key_c, key_b]"
  by (simp add: KeySetEntry_def key_a_def key_b_def key_c_def)

lemma sample_matching: "matching ''k1'' [key_a, key_c, key_b] = [key_a, key_b]"
  by (simp add: matching_def key_a_def key_b_def key_c_def)

lemma sample_build: "build_RSA_key key_b = Inr RSA_key_b"
  by (simp add: build_RSA_key_def getitem_def key_b_def RSA_key_b_def)

lemma sample_last_matching:
  "matching ''k1'' [key_a, key_c, key_b] \<noteq> []"
  "build_RSA_key (last (matching ''k1'' [key_a, key_c, key_b])) = Inr RSA_key_b"
  by (simp_all add: sample_matching sample_build)

lemma sample_no_k9:
  "\<forall>key\<in>set [key_a, key_c, key_b]. \<exists>kid. map_of key ''kid'' = Some kid \<and> kid \<noteq> ''k9''"
  by (simp add: key_a_def key_b_def key_c_def)

lemma world_fetched:
  "fetched unparseable_world token [key_a, key_c, key_b] ''k1''"
  "fetched expired_world token [key_a, key_c, key_b] ''k1''"
  "fetched unknown_kid_world token [key_a, key_c, key_b] ''k9''"
  "fetched expired_unknown_kid_world token [key_a, key_c, key_b] ''k9''"
  by (simp_all add: fetched_def unparseable_world_def expired_world_def unknown_kid_world_def
        expired_unknown_kid_world_def sample_world_def)

lemma sample_verify:
  "verify_decode_jwt sample_world ''t0'' s =
     (Inr sample_claims, s @ [Fetch jwks_url, Decode ''t0'' RSA_key_b ALGORITHMS API_AUDIENCE issuer])"
proof -
  have "jwt_decode sample_world ''t0'' RSA_key_b ALGORITHMS API_AUDIENCE issuer = Inr sample_claims"
    by (simp add: sample_world_def RSA_key_b_def)
  then show ?thesis
    by (simp add: verify_matched [OF sample_fetched sample_entries sample_last_matching])
qed

lemma sample_token: "get_token_auth_header sample_world = Inr ''t0''"
  by code_simp

lemma fetch_down_token: "get_token_auth_header fetch_down_world = Inr ''t0''"
  using get_token_auth_header_request [of fetch_down_world sample_world]
  by (simp add: fetch_down_world_def sample_token)

lemma not_yet_valid_fetched: "fetched not_yet_valid_world token [key_a, key_c, key_b] ''k1''"
  by (simp add: fetched_def not_yet_valid_world_def sample_world_def)

lemma sample_state_run:
  "verify_decode_jwt_in sample_world ''t0'' sample_state =
     (Inr sample_claims,
      sample_state\<lparr>effects :=
        [Fetch jwks_url, Decode ''t0'' RSA_key_b ALGORITHMS API_AUDIENCE issuer]\<rparr>)"
  using verify_in_at_import [of sample_state sample_world "''t0''"] sample_verify [of "[]"]
  by (simp add: sample_state_def)

lemma module_at_import_names:
  "jwks_url_of module_at_import = jwks_url" "issuer_of module_at_import = issuer"
  "var_ALGORITHMS module_at_import = ALGORITHMS" "var_API_AUDIENCE module_at_import = API_AUDIENCE"
  by (simp_all add: jwks_url_of_def issuer_of_def module_at_import_def jwks_url_def issuer_def)

text \<open>The scenarios of the specification, run on the sample world.\<close>

lemma scenario_gate_succeeds:
  "wrapper sample_world ''get:drinks-detail'' sample_operation [] =
     (Inr 4, [Fetch jwks_url, Decode ''t0'' RSA_key_b ALGORITHMS API_AUDIENCE issuer,
              Invoke sample_claims])"
  by (simp add: wrapper_def sample_token sample_verify)
     (simp add: check_permissions_def sample_claims_def sample_operation_def)

lemma scenario_permission_denied:
  "wrapper sample_world ''post:drinks'' sample_operation [] =
     (Inl PermissionDenied,
      [Fetch jwks_url, Decode ''t0'' RSA_key_b ALGORITHMS API_AUDIENCE issuer])"
  by (simp add: wrapper_def sample_token sample_verify)
     (simp add: check_permissions_def sample_claims_def PermissionDenied_def)

lemma scenario_wrong_scheme:
  "wrapper (sample_world\<lparr>request_headers := [(''Authorization'', ''Token abc123'')]\<rparr>)
      ''get:drinks-detail'' sample_operation [] = (Inl MalformedScheme, [])"
proof -
  have "get_token_auth_header
      (sample_world\<lparr>request_headers := [(''Authorization'', ''Token abc123'')]\<rparr>)
      = Inl MalformedScheme"
    by code_simp
  then show ?thesis by (simp add: wrapper_def)
qed

section \<open>The Authorization Gate without a header\<close>

text \<open>
  Claim C1. For every request whose headers hold no \<^verbatim>\<open>Authorization\<close> entry, the gate
  \<open>wrapper\<close> fails with \<open>MissingHeader\<close>, which the handler renders with status 401. The
  trace of effects is returned as it was: no key set is fetched, no token is decoded and the
  protected operation \<open>f\<close> is not invoked.
\<close>

theorem missing_header_stops_gate:
  "map_of (request_headers w) ''Authorization'' = None \<Longrightarrow>
   wrapper w permission f s = (Inl MissingHeader, s) \<and> http_status MissingHeader = Some 401"
  by (simp add: wrapper_def get_token_auth_header_def MissingHeader_def)

theorem missing_header_stops_gate_witness:
  "map_of (request_headers (sample_world\<lparr>request_headers := [(''Host'', ''localhost'')]\<rparr>))
      ''Authorization'' = None \<and>
   wrapper (sample_world\<lparr>request_headers := [(''Host'', ''localhost'')]\<rparr>)
      ''get:drinks-detail'' sample_operation [] = (Inl MissingHeader, []) \<and>
   http_status MissingHeader = Some 401"
proof -
  have h: "map_of (request_headers (sample_world\<lparr>request_headers := [(''Host'', ''localhost'')]\<rparr>))
      ''Authorization'' = None"
    by simp
  show ?thesis
    using h missing_header_stops_gate [OF h, of "''get:drinks-detail''" sample_operation "[]"]
    by simp
qed

section \<open>The Permission Enforcer\<close>

text \<open>
  Claim C2. For every required permission string and every claim mapping: without a
  \<^verbatim>\<open>permissions\<close> field \<open>check_permissions\<close> fails with \<open>PermissionsClaimMissing\<close>
  (status 400); with a \<^verbatim>\<open>permissions\<close> sequence that does not contain the required string
  it fails with \<open>PermissionDenied\<close> (status 401); with one that contains it, it returns
  \<^verbatim>\<open>True\<close>. The sequence is the one of the data model, a JSON array.
\<close>

theorem check_permissions_cases:
  "(map_of payload ''permissions'' = None \<longrightarrow>
      check_permissions permission payload = Inl PermissionsClaimMissing) \<and>
   (\<forall>ps. map_of payload ''permissions'' = Some (JArr ps) \<longrightarrow>
      check_permissions permission payload =
        (if JStr permission \<in> set ps then Inr True else Inl PermissionDenied)) \<and>
   http_status PermissionsClaimMissing = Some 400 \<and> http_status PermissionDenied = Some 401"
  by (simp add: check_permissions_def PermissionsClaimMissing_def PermissionDenied_def)

theorem check_permissions_cases_witness:
  "check_permissions ''post:drinks'' [(''aud'', JStr ''coffee'')] = Inl PermissionsClaimMissing \<and>
   check_permissions ''post:drinks'' sample_claims = Inl PermissionDenied \<and>
   check_permissions ''get:drinks-detail'' sample_claims = Inr True"
  using check_permissions_cases [of "[(''aud'', JStr ''coffee'')]" "''post:drinks''"]
    check_permissions_cases [of sample_claims "''post:drinks''"]
    check_permissions_cases [of sample_claims "''get:drinks-detail''"]
  by (simp add: sample_claims_def)

section \<open>The Token Extractor on blank headers\<close>

text \<open>
  Claim C9. For every \<^verbatim>\<open>Authorization\<close> value that is empty or consists of whitespace
  only, the split yields the empty sequence and reading its first component raises
  \<^verbatim>\<open>IndexError\<close>: an exception that is no \<^verbatim>\<open>AuthError\<close> and that no handler of the
  repository gives a status. The extractor is not total over the present header values.
\<close>

theorem blank_header_IndexError:
  "map_of (request_headers w) ''Authorization'' = Some authorization_header \<Longrightarrow>
   \<forall>c\<in>set authorization_header. isspace c \<Longrightarrow>
   str_split authorization_header = [] \<and> get_token_auth_header w = Inl IndexError \<and>
   http_status IndexError = None"
  by (simp add: get_token_auth_header_def str_split_def split_from_blank http_status_other)

theorem blank_header_IndexError_witness:
  "map_of (request_headers
      (sample_world\<lparr>request_headers := [(''Authorization'', [CHR '' '', CHR 0x09])]\<rparr>))
      ''Authorization'' = Some [CHR '' '', CHR 0x09] \<and>
   list_all isspace [CHR '' '', CHR 0x09] \<and>
   get_token_auth_header
      (sample_world\<lparr>request_headers := [(''Authorization'', [CHR '' '', CHR 0x09])]\<rparr>)
     = Inl IndexError"
proof -
  have h1: "map_of (request_headers
      (sample_world\<lparr>request_headers := [(''Authorization'', [CHR '' '', CHR 0x09])]\<rparr>))
      ''Authorization'' = Some [CHR '' '', CHR 0x09]"
    by simp
  have h2: "\<forall>c\<in>set [CHR '' '', CHR 0x09]. isspace c"
    by (simp add: isspace_def)
  show ?thesis
    using h1 h2 blank_header_IndexError [OF h1 h2] by (simp add: list_all_iff)
qed

section \<open>The Token Extractor on an empty header value\<close>

text \<open>
  Claim C4. The claim gives every present header value one of three outcomes:
  \<open>MalformedScheme\<close>, \<open>MalformedHeader\<close> or the second token. On the header
  \<^verbatim>\<open>Authorization:\<close> with an empty value the code has none of them: the split is empty
  and \<^verbatim>\<open>auth_header_components[0]\<close> raises \<^verbatim>\<open>IndexError\<close> before the test on the number of
  components, which the comment above that test announces for every count other than two,
  is reached. Lemma \<open>extractor_cases\<close> covers the values with at least one component.
\<close>

theorem empty_header_value_escapes:
  "get_token_auth_header (sample_world\<lparr>request_headers := [(''Authorization'', '''')]\<rparr>)
     = Inl IndexError \<and>
   IndexError \<noteq> MalformedScheme \<and> IndexError \<noteq> MalformedHeader"
  by (simp add: get_token_auth_header_def str_split_def MalformedScheme_def MalformedHeader_def)

section \<open>The Signature and Claims Verifier\<close>

text \<open>
  Claim C3, as stated, sends every decode or verification error other than expiry and
  audience or issuer mismatch to \<open>TokenUnparseable\<close>, malformed structure included. Two
  runs end otherwise. A token that the library cannot split is rejected where its header is
  read, before the \<^verbatim>\<open>try\<close> block: the library's \<^verbatim>\<open>JWTError\<close> leaves the verifier as it
  is, with no status. And a token whose key-id matches two entries, rejected by the decoder
  for a claim that is neither expiry, audience nor issuer, comes with the decoder's
  \<^verbatim>\<open>JWTClaimsError\<close> and fails with \<open>ClaimsInvalid\<close>, status 401.
\<close>

theorem unreadable_token_and_claims_error_counterexample:
  "get_unverified_header malformed_token_world ''t0'' = Inl JWTError \<and>
   verify_decode_jwt malformed_token_world ''t0'' [] = (Inl JWTError, [Fetch jwks_url]) \<and>
   JWTError \<noteq> TokenUnparseable \<and> http_status JWTError = None \<and>
   matching ''k1'' [key_a, key_c, key_b] = [key_a, key_b] \<and>
   jwt_decode not_yet_valid_world ''t0'' RSA_key_b ALGORITHMS API_AUDIENCE issuer = Inl JWTClaimsError \<and>
   verify_decode_jwt not_yet_valid_world ''t0'' [] =
     (Inl ClaimsInvalid, [Fetch jwks_url, Decode ''t0'' RSA_key_b ALGORITHMS API_AUDIENCE issuer]) \<and>
   ClaimsInvalid \<noteq> TokenUnparseable \<and> http_status ClaimsInvalid = Some 401"
proof -
  have h: "get_unverified_header malformed_token_world ''t0'' = Inl JWTError"
    by (simp add: malformed_token_world_def)
  have u: "urlopen malformed_token_world jwks_url = Inr ''body''"
    "json_loads malformed_token_world ''body'' = Inr [(''keys'', [key_a, key_c, key_b])]"
    by (simp_all add: malformed_token_world_def sample_world_def)
  have v1: "verify_decode_jwt malformed_token_world ''t0'' [] = (Inl JWTError, [Fetch jwks_url])"
    by (simp add: verify_decode_jwt_def h u)
  have n1: "JWTError \<noteq> TokenUnparseable" "http_status JWTError = None"
    by (simp_all add: TokenUnparseable_def http_status_other)
  have d: "jwt_decode not_yet_valid_world ''t0'' RSA_key_b ALGORITHMS API_AUDIENCE issuer
      = Inl JWTClaimsError"
    by (simp add: not_yet_valid_world_def)
  have v2: "verify_decode_jwt not_yet_valid_world ''t0'' [] =
     (Inl ClaimsInvalid, [Fetch jwks_url, Decode ''t0'' RSA_key_b ALGORITHMS API_AUDIENCE issuer])"
    by (simp add: verify_matched [OF not_yet_valid_fetched sample_entries sample_last_matching] d)
  have n2: "ClaimsInvalid \<noteq> TokenUnparseable" "http_status ClaimsInvalid = Some 401"
    by (simp_all add: ClaimsInvalid_def TokenUnparseable_def)
  from h v1 n1 sample_matching d v2 n2 show ?thesis by simp
qed

text \<open>
  Claim C3, amended. For every token whose header can be read and declares a key-id that
  matches an entry of the fetched key set: when the decoder, called with the selected key
  and the algorithm list \<^verbatim>\<open>['RS256']\<close>, raises any exception other than
  \<^verbatim>\<open>ExpiredSignatureError\<close> and \<^verbatim>\<open>JWTClaimsError\<close>, verification fails with
  \<open>TokenUnparseable\<close>, status 400. A malformed payload or signature segment, a bad
  signature and a foreign algorithm reach the code as such an exception of the decoder.
\<close>

theorem other_decode_error_unparseable:
  assumes "fetched w token keys header_kid" and "list_all KeySetEntry keys"
    and "matching header_kid keys \<noteq> []"
    and "build_RSA_key (last (matching header_kid keys)) = Inr RSA_key"
    and "jwt_decode w token RSA_key ALGORITHMS API_AUDIENCE issuer = Inl e"
    and "e \<noteq> ExpiredSignatureError" and "e \<noteq> JWTClaimsError" and "is_Exception e"
  shows "verify_decode_jwt w token s =
           (Inl TokenUnparseable,
            s @ [Fetch jwks_url, Decode token RSA_key ALGORITHMS API_AUDIENCE issuer]) \<and>
         http_status TokenUnparseable = Some 400 \<and> ALGORITHMS = [''RS256'']"
  using assms(5-8)
  by (simp add: verify_matched [OF assms(1-4)] TokenUnparseable_def ALGORITHMS_def)

theorem other_decode_error_unparseable_witness:
  "fetched unparseable_world ''t0'' [key_a, key_c, key_b] ''k1'' \<and>
   list_all KeySetEntry [key_a, key_c, key_b] \<and>
   matching ''k1'' [key_a, key_c, key_b] \<noteq> [] \<and>
   build_RSA_key (last (matching ''k1'' [key_a, key_c, key_b])) = Inr RSA_key_b \<and>
   jwt_decode unparseable_world ''t0'' RSA_key_b ALGORITHMS API_AUDIENCE issuer = Inl JWTError \<and>
   verify_decode_jwt unparseable_world ''t0'' [] =
     (Inl TokenUnparseable, [Fetch jwks_url, Decode ''t0'' RSA_key_b ALGORITHMS API_AUDIENCE issuer])"
proof -
  have h1: "fetched unparseable_world ''t0'' [key_a, key_c, key_b] ''k1''"
    by (rule world_fetched)
  have h5: "jwt_decode unparseable_world ''t0'' RSA_key_b ALGORITHMS API_AUDIENCE issuer = Inl JWTError"
    by (simp add: unparseable_world_def)
  have h6: "JWTError \<noteq> ExpiredSignatureError" "JWTError \<noteq> JWTClaimsError" "is_Exception JWTError"
    by simp_all
  show ?thesis
    using h1 sample_entries sample_last_matching h5
      other_decode_error_unparseable [OF h1 sample_entries sample_last_matching h5 h6, of "[]"]
    by simp
qed

text \<open>
  Claim C5. For every token whose header declares a key-id that no entry of the fetched
  key set carries, verification fails with \<open>NoTokenProvided\<close>, status 400. The run leaves
  the fetch as its only effect: the decoder is not called.
\<close>

theorem unmatched_key_id_no_token:
  assumes "fetched w token keys header_kid"
    and "\<forall>key\<in>set keys. \<exists>kid. map_of key ''kid'' = Some kid \<and> kid \<noteq> header_kid"
  shows "verify_decode_jwt w token s = (Inl NoTokenProvided, s @ [Fetch jwks_url]) \<and>
         http_status NoTokenProvided = Some 400"
  by (simp add: verify_fetched [OF assms(1)] match_keys_none [OF assms(2)] NoTokenProvided_def)

theorem unmatched_key_id_no_token_witness:
  "fetched unknown_kid_world ''t0'' [key_a, key_c, key_b] ''k9'' \<and>
   list_all (\<lambda>key. map_of key ''kid'' \<noteq> None \<and> map_of key ''kid'' \<noteq> Some ''k9'')
     [key_a, key_c, key_b] \<and>
   verify_decode_jwt unknown_kid_world ''t0'' [] = (Inl NoTokenProvided, [Fetch jwks_url])"
proof -
  have h1: "fetched unknown_kid_world ''t0'' [key_a, key_c, key_b] ''k9''"
    by (rule world_fetched)
  have h2: "list_all (\<lambda>key. map_of key ''kid'' \<noteq> None \<and> map_of key ''kid'' \<noteq> Some ''k9'')
      [key_a, key_c, key_b]"
    by (simp add: key_a_def key_b_def key_c_def)
  show ?thesis
    using h1 h2 unmatched_key_id_no_token [OF h1 sample_no_k9, of "[]"] by simp
qed

text \<open>
  Claim C6, as stated, promises \<open>TokenExpired\<close> for every expired token. The code reaches
  the decoder, which alone judges expiry, only behind its guards: here an expired token
  declares a key-id that the key set does not hold, and verification fails with
  \<open>NoTokenProvided\<close> and status 400 instead.
\<close>

theorem expired_token_unknown_key_counterexample:
  "jwt_decode expired_unknown_kid_world ''t0'' RSA_key_b ALGORITHMS API_AUDIENCE issuer
      = Inl ExpiredSignatureError \<and>
   verify_decode_jwt expired_unknown_kid_world ''t0'' [] = (Inl NoTokenProvided, [Fetch jwks_url]) \<and>
   NoTokenProvided \<noteq> TokenExpired \<and> http_status NoTokenProvided = Some 400"
proof -
  have d: "jwt_decode expired_unknown_kid_world ''t0'' RSA_key_b ALGORITHMS API_AUDIENCE issuer
      = Inl ExpiredSignatureError"
    by (simp add: expired_unknown_kid_world_def expired_world_def)
  have f: "fetched expired_unknown_kid_world ''t0'' [key_a, key_c, key_b] ''k9''"
    by (rule world_fetched)
  have v: "verify_decode_jwt expired_unknown_kid_world ''t0'' [] =
      (Inl NoTokenProvided, [Fetch jwks_url])"
    unfolding verify_fetched [OF f] match_keys_none [OF sample_no_k9] by simp
  have n: "NoTokenProvided \<noteq> TokenExpired" "http_status NoTokenProvided = Some 400"
    by (simp_all add: NoTokenProvided_def TokenExpired_def)
  from d v n show ?thesis by simp
qed

text \<open>
  Claim C6, amended. For every token whose declared key-id matches an entry of the fetched
  key set and which the decoder, called with the selected key, finds expired, verification
  fails with \<open>TokenExpired\<close>, status 401. The decoder receives the token, the key, the
  algorithm list, the audience and the issuer and nothing else: no leeway is passed.
\<close>

theorem expired_token_matched_key:
  assumes "fetched w token keys header_kid" and "list_all KeySetEntry keys"
    and "matching header_kid keys \<noteq> []"
    and "build_RSA_key (last (matching header_kid keys)) = Inr RSA_key"
    and "jwt_decode w token RSA_key ALGORITHMS API_AUDIENCE issuer = Inl ExpiredSignatureError"
  shows "verify_decode_jwt w token s =
           (Inl TokenExpired,
            s @ [Fetch jwks_url, Decode token RSA_key ALGORITHMS API_AUDIENCE issuer]) \<and>
         http_status TokenExpired = Some 401"
  using assms(5) by (simp add: verify_matched [OF assms(1-4)] TokenExpired_def)

theorem expired_token_matched_key_witness:
  "fetched expired_world ''t0'' [key_a, key_c, key_b] ''k1'' \<and>
   list_all KeySetEntry [key_a, key_c, key_b] \<and>
   matching ''k1'' [key_a, key_c, key_b] \<noteq> [] \<and>
   build_RSA_key (last (matching ''k1'' [key_a, key_c, key_b])) = Inr RSA_key_b \<and>
   jwt_decode expired_world ''t0'' RSA_key_b ALGORITHMS API_AUDIENCE issuer
     = Inl ExpiredSignatureError \<and>
   verify_decode_jwt expired_world ''t0'' [] =
     (Inl TokenExpired, [Fetch jwks_url, Decode ''t0'' RSA_key_b ALGORITHMS API_AUDIENCE issuer])"
proof -
  have h1: "fetched expired_world ''t0'' [key_a, key_c, key_b] ''k1''"
    by (rule world_fetched)
  have h5: "jwt_decode expired_world ''t0'' RSA_key_b ALGORITHMS API_AUDIENCE issuer
      = Inl ExpiredSignatureError"
    by (simp add: expired_world_def)
  show ?thesis
    using h1 sample_entries sample_last_matching h5
      expired_token_matched_key [OF h1 sample_entries sample_last_matching h5, of "[]"]
    by simp
qed

section \<open>A key-set fetch that fails\<close>

text \<open>
  Claim C7, as stated, has the flow fail with a structured failure that carries a 5xx
  status. When the fetch raises \<^verbatim>\<open>URLError\<close> the gate ends with that very exception: it is
  no \<^verbatim>\<open>AuthError\<close>, it carries no status, and no handler of \<^verbatim>\<open>api.py\<close> renders it.
\<close>

theorem fetch_error_counterexample:
  "wrapper fetch_down_world ''get:drinks-detail'' sample_operation []
     = (Inl URLError, [Fetch jwks_url]) \<and> http_status URLError = None"
proof -
  have u: "urlopen fetch_down_world jwks_url = Inl URLError"
    by (simp add: fetch_down_world_def)
  have "verify_decode_jwt fetch_down_world ''t0'' [] = (Inl URLError, [Fetch jwks_url])"
    by (simp add: verify_decode_jwt_def u)
  then show ?thesis
    by (simp add: wrapper_def fetch_down_token http_status_other)
qed

text \<open>
  Claim C7, amended. For every verification attempt during which the key-set fetch raises
  an exception of the transport, that exception leaves the verifier and the gate unchanged:
  it is not swallowed and not turned into an \<^verbatim>\<open>AuthError\<close>, so the repository assigns it no
  status. The fetch is the only effect of the run: nothing is decoded and the protected
  operation is not invoked.
\<close>

theorem fetch_error_propagates:
  assumes "get_token_auth_header w = Inr token" and "urlopen w jwks_url = Inl e"
    and "\<forall>err code. e \<noteq> AuthError err code"
  shows "verify_decode_jwt w token s = (Inl e, s @ [Fetch jwks_url]) \<and>
         wrapper w permission f s = (Inl e, s @ [Fetch jwks_url]) \<and>
         http_status e = None"
proof -
  have v: "verify_decode_jwt w token s = (Inl e, s @ [Fetch jwks_url])"
    by (simp add: verify_decode_jwt_def assms(2))
  then show ?thesis
    by (simp add: wrapper_def assms(1) http_status_other [OF assms(3)])
qed

theorem fetch_error_propagates_witness:
  "get_token_auth_header fetch_down_world = Inr ''t0'' \<and>
   urlopen fetch_down_world jwks_url = Inl URLError \<and>
   verify_decode_jwt fetch_down_world ''t0'' [Invoke sample_claims] =
     (Inl URLError, [Invoke sample_claims, Fetch jwks_url]) \<and>
   wrapper fetch_down_world ''post:drinks'' sample_operation [Invoke sample_claims] =
     (Inl URLError, [Invoke sample_claims, Fetch jwks_url])"
proof -
  have u: "urlopen fetch_down_world jwks_url = Inl URLError"
    by (simp add: fetch_down_world_def)
  have n: "\<forall>err code. URLError \<noteq> AuthError err code"
    by simp
  show ?thesis
    using fetch_down_token u
      fetch_error_propagates [OF fetch_down_token u n,
        of "[Invoke sample_claims]" "''post:drinks''" sample_operation]
    by simp
qed

section \<open>Verifying twice\<close>

text \<open>
  Claim C8. For every token that a run of verification accepts: the run leaves the module's
  variables as they were, its effects are the fetch and the decoder call, and the claims it
  returns are the decoder's. A second run, started in the state the first one left, against
  a world that serves the same key set, reads the same token header and gives the same
  decoder verdicts (the same clock), returns the same claims.
\<close>

theorem second_run_same_claims:
  assumes "verify_decode_jwt_in w token st = (Inr claims, st1)"
    and "served_keys w' (jwks_url_of (globals st)) = served_keys w (jwks_url_of (globals st))"
    and "get_unverified_header w' token = get_unverified_header w token"
    and "\<forall>key. jwt_decode w' token key (var_ALGORITHMS (globals st)) (var_API_AUDIENCE (globals st))
             (issuer_of (globals st)) =
           jwt_decode w token key (var_ALGORITHMS (globals st)) (var_API_AUDIENCE (globals st))
             (issuer_of (globals st))"
  shows "globals st1 = globals st \<and>
     (\<exists>RSA_key.
        effects st1 = effects st @
          [Fetch (jwks_url_of (globals st)),
           Decode token RSA_key (var_ALGORITHMS (globals st)) (var_API_AUDIENCE (globals st))
             (issuer_of (globals st))] \<and>
        jwt_decode w token RSA_key (var_ALGORITHMS (globals st)) (var_API_AUDIENCE (globals st))
          (issuer_of (globals st)) = Inr claims \<and>
        verify_decode_jwt_in w' token st1 =
          (Inr claims,
           st1\<lparr>effects := effects st1 @
             [Fetch (jwks_url_of (globals st)),
              Decode token RSA_key (var_ALGORITHMS (globals st)) (var_API_AUDIENCE (globals st))
                (issuer_of (globals st))]\<rparr>))"
proof -
  from verify_in_success [OF assms(1)] obtain keys unverified_header header_kid RSA_key where
    k: "served_keys w (jwks_url_of (globals st)) = Some keys" and
    h: "get_unverified_header w token = Inr unverified_header"
       "map_of unverified_header ''kid'' = Some header_kid" and
    m: "match_keys keys header_kid [] = Inr RSA_key" "RSA_key \<noteq> []" and
    d: "jwt_decode w token RSA_key (var_ALGORITHMS (globals st)) (var_API_AUDIENCE (globals st))
          (issuer_of (globals st)) = Inr claims" and
    st1: "st1 = st\<lparr>effects := effects st @
        [Fetch (jwks_url_of (globals st)),
         Decode token RSA_key (var_ALGORITHMS (globals st)) (var_API_AUDIENCE (globals st))
           (issuer_of (globals st))]\<rparr>"
    by blast
  from st1 have g: "globals st1 = globals st" by simp
  have k': "served_keys w' (jwks_url_of (globals st1)) = Some keys"
    using assms(2) k g by simp
  have h': "get_unverified_header w' token = Inr unverified_header"
    using assms(3) h(1) by simp
  have d': "jwt_decode w' token RSA_key (var_ALGORITHMS (globals st1)) (var_API_AUDIENCE (globals st1))
          (issuer_of (globals st1)) = Inr claims"
    using assms(4) d g by simp
  have second: "verify_decode_jwt_in w' token st1 =
     (Inr claims,
      st1\<lparr>effects := effects st1 @
        [Fetch (jwks_url_of (globals st1)),
         Decode token RSA_key (var_ALGORITHMS (globals st1)) (var_API_AUDIENCE (globals st1))
           (issuer_of (globals st1))]\<rparr>)"
    by (rule verify_in_served [OF k' h' h(2) m d'])
  have e: "effects st1 = effects st @
          [Fetch (jwks_url_of (globals st)),
           Decode token RSA_key (var_ALGORITHMS (globals st)) (var_API_AUDIENCE (globals st))
             (issuer_of (globals st))]"
    using st1 by simp
  from g e d second show ?thesis by auto
qed

theorem second_run_same_claims_witness:
  "verify_decode_jwt_in sample_world ''t0'' sample_state =
     (Inr sample_claims,
      sample_state\<lparr>effects :=
        [Fetch jwks_url, Decode ''t0'' RSA_key_b ALGORITHMS API_AUDIENCE issuer]\<rparr>) \<and>
   served_keys next_request_world jwks_url = served_keys sample_world jwks_url \<and>
   urlopen next_request_world jwks_url \<noteq> urlopen sample_world jwks_url \<and>
   get_unverified_header next_request_world ''t0'' = get_unverified_header sample_world ''t0'' \<and>
   jwt_decode next_request_world = jwt_decode sample_world \<and>
   verify_decode_jwt_in next_request_world ''t0''
      (sample_state\<lparr>effects :=
        [Fetch jwks_url, Decode ''t0'' RSA_key_b ALGORITHMS API_AUDIENCE issuer]\<rparr>) =
     (Inr sample_claims,
      sample_state\<lparr>effects :=
        [Fetch jwks_url, Decode ''t0'' RSA_key_b ALGORITHMS API_AUDIENCE issuer,
         Fetch jwks_url, Decode ''t0'' RSA_key_b ALGORITHMS API_AUDIENCE issuer]\<rparr>)"
proof -
  have g: "globals sample_state = module_at_import" by (simp add: sample_state_def)
  have h2: "served_keys next_request_world (jwks_url_of (globals sample_state)) =
      served_keys sample_world (jwks_url_of (globals sample_state))"
    by (simp add: served_keys_def next_request_world_def sample_world_def)
  have h3: "get_unverified_header next_request_world ''t0'' = get_unverified_header sample_world ''t0''"
    by (simp add: next_request_world_def)
  have dd: "jwt_decode next_request_world = jwt_decode sample_world"
    by (simp add: next_request_world_def)
  have h4: "\<forall>key. jwt_decode next_request_world ''t0'' key (var_ALGORITHMS (globals sample_state))
        (var_API_AUDIENCE (globals sample_state)) (issuer_of (globals sample_state)) =
      jwt_decode sample_world ''t0'' key (var_ALGORITHMS (globals sample_state))
        (var_API_AUDIENCE (globals sample_state)) (issuer_of (globals sample_state))"
    by (simp add: dd)
  have u: "urlopen next_request_world jwks_url \<noteq> urlopen sample_world jwks_url"
    by (simp add: next_request_world_def sample_world_def)
  show ?thesis
    using sample_state_run h2 h3 dd u second_run_same_claims [OF sample_state_run h2 h3 h4]
    by (auto simp: g module_at_import_names sample_state_def)
qed

section \<open>Several entries with the declared key-id\<close>



end
